theory Spec2Isabelle
  imports Complex_Main
begin

section \<open>Space Defender: the simulation core of main.cpp\<close>

text \<open>
  The embedding follows \<^verbatim>\<open>src/main.cpp\<close>. The globals of the program (game state, player,
  the three vectors, the timers, the difficulty variables, the key table) are the fields of
  one record \<open>game\<close>; \<^verbatim>\<open>update\<close> and \<^verbatim>\<open>keyboardDown\<close> take it and return it updated.

  Numbers. Every \<^verbatim>\<open>float\<close> of the source is a \<open>real\<close> here: the model computes with exact
  arithmetic where the machine rounds to single precision. Every \<^verbatim>\<open>int\<close> is an \<open>int\<close>.
  The score is the one integer a run can drive to the end of the 32-bit range (nothing
  bounds it), so its two additions wrap around as the machine's do: \<open>int32\<close> below. The
  level stays in 1..3 and the lives stay small, so their arithmetic is written plainly.
  \<^verbatim>\<open>rand()\<close> returns a non-negative int; the values it returns at the five call sites
  of one tick are an input of \<open>update\<close> (record \<open>rands\<close>), so \<^verbatim>\<open>%\<close> on them is \<open>mod\<close>.
\<close>

subsection \<open>Data\<close>

definition WIDTH :: int where "WIDTH = 800"
definition HEIGHT :: int where "HEIGHT = 600"

text \<open>The value a 32-bit two's-complement \<^verbatim>\<open>int\<close> holds after an operation whose exact result
  is \<open>x\<close>: \<open>x\<close> itself from \<open>-2\<^sup>3\<^sup>1\<close> to \<open>2\<^sup>3\<^sup>1 - 1\<close>, wrapped around outside.\<close>

definition int32 :: "int \<Rightarrow> int" where
  "int32 x = (x + 2147483648) mod 4294967296 - 2147483648"

datatype GameState = MENU | PLAYING | GAME_OVER

record Player =
  p_x :: real
  p_y :: real
  p_size :: real
  p_speed :: real
  lives :: int
  score :: int

record Bullet =
  b_x :: real
  b_y :: real
  b_speed :: real
  b_active :: bool

record Enemy =
  e_x :: real
  e_y :: real
  e_speed :: real
  e_active :: bool
  e_type :: int

record PowerUp =
  u_x :: real
  u_y :: real
  u_speed :: real
  u_active :: bool

record game =
  gameState :: GameState
  player :: Player
  bullets :: "Bullet list"
  enemies :: "Enemy list"
  powerUps :: "PowerUp list"
  starOffset :: real
  enemySpawnTimer :: real
  powerUpTimer :: real
  gameLevelTimer :: real
  currentLevel :: int
  enemySpawnRate :: int
  lastHitTimer :: real
  playerShape :: int
  keys :: "char \<Rightarrow> bool"

text \<open>The results of the calls of \<^verbatim>\<open>rand()\<close> in one tick, one field per call site:
  the two operands of \<^verbatim>\<open>enemy.x\<close>, \<^verbatim>\<open>enemy.speed\<close>, \<^verbatim>\<open>enemy.type\<close> and \<^verbatim>\<open>powerUp.x\<close>.\<close>

record rands =
  rand_ex1 :: nat
  rand_ex2 :: nat
  rand_espeed :: nat
  rand_etype :: nat
  rand_ux :: nat

text \<open>The globals as their initialisers and \<^verbatim>\<open>init()\<close> leave them.\<close>

definition init :: game where
  "init = \<lparr> gameState = MENU,
            player = \<lparr> p_x = real_of_int (WIDTH div 2), p_y = 50, p_size = 20, p_speed = 5,
                       lives = 3, score = 0 \<rparr>,
            bullets = [], enemies = [], powerUps = [],
            starOffset = 0, enemySpawnTimer = 0, powerUpTimer = 0, gameLevelTimer = 0,
            currentLevel = 1, enemySpawnRate = 60, lastHitTimer = 0, playerShape = 0,
            keys = (\<lambda>c. False) \<rparr>"

subsection \<open>Range-based for loops\<close>

text \<open>\<^verbatim>\<open>for (auto& x : xs) body\<close>: the body may change the element it is given and the rest of
  the state; the elements are visited front to back.\<close>

fun for_each :: "('a \<Rightarrow> 's \<Rightarrow> 'a \<times> 's) \<Rightarrow> 'a list \<Rightarrow> 's \<Rightarrow> 'a list \<times> 's" where
  "for_each body [] s = ([], s)"
| "for_each body (x # xs) s =
     (case body x s of (x', s') \<Rightarrow>
        (case for_each body xs s' of (xs', s'') \<Rightarrow> (x' # xs', s'')))"

subsection \<open>The erase-remove idiom\<close>

text \<open>\<^verbatim>\<open>std::remove_if(first, last, p)\<close> shifts every element that does not satisfy \<open>p\<close> to the
  front of the range, in place, and returns the new logical end; \<^verbatim>\<open>v.erase(it, v.end())\<close>
  then cuts the vector there. \<open>remove_if_loop p xs first i\<close> is the shifting loop with its
  write index \<open>first\<close> and its read index \<open>i\<close>.\<close>

function remove_if_loop :: "('a \<Rightarrow> bool) \<Rightarrow> 'a list \<Rightarrow> nat \<Rightarrow> nat \<Rightarrow> 'a list \<times> nat" where
  "remove_if_loop p xs first i =
     (if i < length xs then
        (if \<not> p (xs ! i) then remove_if_loop p (xs[first := xs ! i]) (Suc first) (Suc i)
         else remove_if_loop p xs first (Suc i))
      else (xs, first))"
  by pat_completeness auto
termination
  by (relation "measure (\<lambda>(p, xs, first, i). length xs - i)") auto

declare remove_if_loop.simps [simp del]

definition remove_if :: "('a \<Rightarrow> bool) \<Rightarrow> 'a list \<Rightarrow> 'a list \<times> nat" where
  "remove_if p xs = remove_if_loop p xs 0 0"

definition erase_to_end :: "'a list \<times> nat \<Rightarrow> 'a list" where
  "erase_to_end r = (case r of (xs, new_end) \<Rightarrow> take new_end xs)"

subsection \<open>update: the phases of one tick, in the order of the source\<close>

definition tick_timers :: "game \<Rightarrow> game" where
  "tick_timers g =
     (let g1 = g\<lparr> starOffset := starOffset g + 0.5 \<rparr>;
          g2 = (if starOffset g1 > real_of_int HEIGHT then g1\<lparr> starOffset := 0 \<rparr> else g1)
      in g2\<lparr> enemySpawnTimer := enemySpawnTimer g2 + 1,
              powerUpTimer := powerUpTimer g2 + 1,
              gameLevelTimer := gameLevelTimer g2 + 1,
              lastHitTimer := lastHitTimer g2 + 1 \<rparr>)"

definition level_management :: "game \<Rightarrow> game" where
  "level_management g =
     (if gameLevelTimer g \<ge> 900 then
        (let g1 = (if currentLevel g < 3 then
                     (let g' = g\<lparr> currentLevel := currentLevel g + 1 \<rparr>
                      in g'\<lparr> enemySpawnRate := 60 - (currentLevel g' - 1) * 25 \<rparr>)
                   else g)
         in g1\<lparr> gameLevelTimer := 0 \<rparr>)
      else g)"

definition player_penalty :: "game \<Rightarrow> game" where
  "player_penalty g =
     (if lastHitTimer g \<ge> 300 then
        (let g1 = (if lives (player g) > 0 then
                     g\<lparr> player := (player g)\<lparr> lives := lives (player g) - 1 \<rparr>,
                        lastHitTimer := 0 \<rparr>
                   else g)
         in if lives (player g1) \<le> 0 then g1\<lparr> gameState := GAME_OVER \<rparr> else g1)
      else g)"

definition move_player :: "game \<Rightarrow> game" where
  "move_player g =
     (let k = keys g;
          p0 = player g;
          p1 = (if k CHR ''a'' \<or> k CHR ''A'' then
                  (let q = p0\<lparr> p_x := p_x p0 - p_speed p0 \<rparr>
                   in if p_x q < p_size q then q\<lparr> p_x := p_size q \<rparr> else q)
                else p0);
          p2 = (if k CHR ''d'' \<or> k CHR ''D'' then
                  (let q = p1\<lparr> p_x := p_x p1 + p_speed p1 \<rparr>
                   in if p_x q > real_of_int WIDTH - p_size q
                      then q\<lparr> p_x := real_of_int WIDTH - p_size q \<rparr> else q)
                else p1);
          p3 = (if k CHR ''w'' \<or> k CHR ''W'' then
                  (let q = p2\<lparr> p_y := p_y p2 + p_speed p2 \<rparr>
                   in if p_y q > real_of_int HEIGHT - p_size q
                      then q\<lparr> p_y := real_of_int HEIGHT - p_size q \<rparr> else q)
                else p2);
          p4 = (if k CHR ''s'' \<or> k CHR ''S'' then
                  (let q = p3\<lparr> p_y := p_y p3 - p_speed p3 \<rparr>
                   in if p_y q < p_size q then q\<lparr> p_y := p_size q \<rparr> else q)
                else p3)
      in g\<lparr> player := p4 \<rparr>)"

definition bullet_move :: "Bullet \<Rightarrow> game \<Rightarrow> Bullet \<times> game" where
  "bullet_move bullet g =
     (if b_active bullet then
        (let b1 = bullet\<lparr> b_y := b_y bullet + b_speed bullet \<rparr>
         in (if b_y b1 > real_of_int HEIGHT then b1\<lparr> b_active := False \<rparr> else b1, g))
      else (bullet, g))"

definition update_bullets :: "game \<Rightarrow> game" where
  "update_bullets g =
     (case for_each bullet_move (bullets g) g of (bs, g') \<Rightarrow> g'\<lparr> bullets := bs \<rparr>)"

definition spawn_enemies :: "rands \<Rightarrow> game \<Rightarrow> game" where
  "spawn_enemies r g =
     (if enemySpawnTimer g > real_of_int (enemySpawnRate g) then
        (let enemy = \<lparr> e_x = real_of_int (int (rand_ex1 r) mod (WIDTH - 40) + int (rand_ex2 r) mod 20),
                       e_y = real_of_int HEIGHT,
                       e_speed = 2.0 + real_of_int (int (rand_espeed r) mod 3)
                                 + real_of_int (currentLevel g) * 0.5,
                       e_active = True,
                       e_type = int (rand_etype r) mod 4 \<rparr>
         in g\<lparr> enemies := enemies g @ [enemy], enemySpawnTimer := 0 \<rparr>)
      else g)"

definition enemy_body :: "Enemy \<Rightarrow> game \<Rightarrow> Enemy \<times> game" where
  "enemy_body enemy g =
     (if e_active enemy then
        (let e1 = enemy\<lparr> e_y := e_y enemy - e_speed enemy \<rparr>;
             e2 = (if e_y e1 < - 30 then e1\<lparr> e_active := False \<rparr> else e1);
             dx = e_x e2 - p_x (player g);
             dy = e_y e2 - p_y (player g);
             distance = sqrt (dx * dx + dy * dy)
         in if distance < p_size (player g) + 15 then
              (let g1 = g\<lparr> player := (player g)\<lparr> lives := lives (player g) - 1 \<rparr> \<rparr>
               in (e2\<lparr> e_active := False \<rparr>,
                   if lives (player g1) \<le> 0 then g1\<lparr> gameState := GAME_OVER \<rparr> else g1))
            else (e2, g))
      else (enemy, g))"

definition update_enemies :: "game \<Rightarrow> game" where
  "update_enemies g =
     (case for_each enemy_body (enemies g) g of (es, g') \<Rightarrow> g'\<lparr> enemies := es \<rparr>)"

text \<open>The inner loop of the bullet-enemy scan runs over the enemies with the bullet of the
  outer loop (a reference) and the globals as its state. The outer loop tests
  \<^verbatim>\<open>bullet.active\<close> once, before the inner loop starts; the inner loop has no \<^verbatim>\<open>break\<close>.\<close>

definition hit_check :: "Enemy \<Rightarrow> Bullet \<times> game \<Rightarrow> Enemy \<times> (Bullet \<times> game)" where
  "hit_check enemy bg =
     (case bg of (bullet, g) \<Rightarrow>
        if e_active enemy then
          (let dx = b_x bullet - e_x enemy;
               dy = b_y bullet - e_y enemy;
               distance = sqrt (dx * dx + dy * dy)
           in if distance < 20 then
                (enemy\<lparr> e_active := False \<rparr>,
                 (bullet\<lparr> b_active := False \<rparr>,
                  g\<lparr> player := (player g)\<lparr> score := int32 (score (player g) + 10) \<rparr>,
                     lastHitTimer := 0 \<rparr>))
              else (enemy, (bullet, g)))
        else (enemy, (bullet, g)))"

definition bullet_body :: "Bullet \<Rightarrow> game \<Rightarrow> Bullet \<times> game" where
  "bullet_body bullet g =
     (if b_active bullet then
        (case for_each hit_check (enemies g) (bullet, g) of
           (es, (bullet', g')) \<Rightarrow> (bullet', g'\<lparr> enemies := es \<rparr>))
      else (bullet, g))"

definition bullet_enemy_collision :: "game \<Rightarrow> game" where
  "bullet_enemy_collision g =
     (case for_each bullet_body (bullets g) g of (bs, g') \<Rightarrow> g'\<lparr> bullets := bs \<rparr>)"

definition spawn_powerups :: "rands \<Rightarrow> game \<Rightarrow> game" where
  "spawn_powerups r g =
     (if powerUpTimer g > 300 then
        (let powerUp = \<lparr> u_x = real_of_int (int (rand_ux r) mod (WIDTH - 40) + 20),
                         u_y = real_of_int HEIGHT,
                         u_speed = 1.5,
                         u_active = True \<rparr>
         in g\<lparr> powerUps := powerUps g @ [powerUp], powerUpTimer := 0 \<rparr>)
      else g)"

definition powerup_body :: "PowerUp \<Rightarrow> game \<Rightarrow> PowerUp \<times> game" where
  "powerup_body powerUp g =
     (if u_active powerUp then
        (let u1 = powerUp\<lparr> u_y := u_y powerUp - u_speed powerUp \<rparr>;
             u2 = (if u_y u1 < - 20 then u1\<lparr> u_active := False \<rparr> else u1);
             dx = u_x u2 - p_x (player g);
             dy = u_y u2 - p_y (player g);
             distance = sqrt (dx * dx + dy * dy)
         in if distance < p_size (player g) + 10 then
              (let p = player g;
                   p1 = (if lives p < 5 then p\<lparr> lives := lives p + 1 \<rparr> else p)
               in (u2\<lparr> u_active := False \<rparr>, g\<lparr> player := p1\<lparr> score := int32 (score p1 + 20) \<rparr> \<rparr>))
            else (u2, g))
      else (powerUp, g))"

definition update_powerups :: "game \<Rightarrow> game" where
  "update_powerups g =
     (case for_each powerup_body (powerUps g) g of (us, g') \<Rightarrow> g'\<lparr> powerUps := us \<rparr>)"

definition cleanup :: "game \<Rightarrow> game" where
  "cleanup g =
     g\<lparr> bullets := erase_to_end (remove_if (\<lambda>b. \<not> b_active b) (bullets g)),
        enemies := erase_to_end (remove_if (\<lambda>e. \<not> e_active e) (enemies g)),
        powerUps := erase_to_end (remove_if (\<lambda>p. \<not> u_active p) (powerUps g)) \<rparr>"

text \<open>Everything a PLAYING tick does before the cleanup, then the tick itself. Scheduling the
  next frame and the redisplay request do not touch the state.\<close>

definition simulate :: "rands \<Rightarrow> game \<Rightarrow> game" where
  "simulate r g =
     update_powerups (spawn_powerups r (bullet_enemy_collision (update_enemies
       (spawn_enemies r (update_bullets (move_player (player_penalty (level_management
         (tick_timers g)))))))))"

definition update :: "rands \<Rightarrow> game \<Rightarrow> game" where
  "update r g = (if gameState g = PLAYING then cleanup (simulate r g) else g)"

subsection \<open>keyboardDown\<close>

text \<open>\<^verbatim>\<open>exit(0)\<close> on ESC ends the process: the result is \<open>None\<close>.\<close>

definition keyboardDown :: "char \<Rightarrow> game \<Rightarrow> game option" where
  "keyboardDown key g0 =
     (let g = g0\<lparr> keys := (keys g0)(key := True) \<rparr>
      in if key = CHR 0x1B then None
         else if key = CHR '' '' then
           (if gameState g = MENU \<or> gameState g = GAME_OVER then
              Some (g\<lparr> gameState := PLAYING,
                       player := (player g)\<lparr> lives := 3, score := 0,
                                             p_x := real_of_int (WIDTH div 2), p_y := 50 \<rparr>,
                       bullets := [], enemies := [], powerUps := [],
                       currentLevel := 1, enemySpawnRate := 60,
                       gameLevelTimer := 0, lastHitTimer := 0, playerShape := 0 \<rparr>)
            else if gameState g = PLAYING then
              (let bullet = \<lparr> b_x = p_x (player g), b_y = p_y (player g) + p_size (player g),
                              b_speed = 10.0, b_active = True \<rparr>
               in Some (g\<lparr> bullets := bullets g @ [bullet] \<rparr>))
            else Some g)
         else Some g)"

subsection \<open>Successive ticks\<close>

text \<open>Each call of \<^verbatim>\<open>update\<close> re-arms the timer that calls it again. \<open>run rs g\<close> is the
  state after one tick per element of \<open>rs\<close> (the random numbers of that tick), with no
  keyboard event in between.\<close>

definition run :: "rands list \<Rightarrow> game \<Rightarrow> game" where
  "run rs g = fold update rs g"

subsection \<open>Views of the state\<close>

text \<open>The difficulty variables and the two spawn counters, as one tuple.\<close>

abbreviation clocks :: "game \<Rightarrow> int \<times> int \<times> real \<times> real \<times> real" where
  "clocks g \<equiv> (currentLevel g, enemySpawnRate g, gameLevelTimer g, enemySpawnTimer g, powerUpTimer g)"

section \<open>Auxiliary facts\<close>

subsection \<open>Distances, loops and the erase-remove idiom\<close>

lemma sqrt_less_iff: "0 \<le> t \<Longrightarrow> sqrt a < t \<longleftrightarrow> a < t * t"
proof -
  assume t: "0 \<le> t"
  have "sqrt (t * t) = t" using t by simp
  then have "sqrt a < t \<longleftrightarrow> sqrt a < sqrt (t * t)" by simp
  also have "\<dots> \<longleftrightarrow> a < t * t" by (rule real_sqrt_less_iff)
  finally show ?thesis .
qed

lemma sqrt_le_iff: "0 \<le> t \<Longrightarrow> t \<le> sqrt a \<longleftrightarrow> t * t \<le> a"
  using sqrt_less_iff[of t a] by (simp add: not_less[symmetric])

lemma int32_in_range: "- 2147483648 \<le> x \<Longrightarrow> x \<le> 2147483647 \<Longrightarrow> int32 x = x"
  by (simp add: int32_def)

lemma remove_if_loop_take:
  "first \<le> i \<Longrightarrow> i \<le> length xs \<Longrightarrow> remove_if_loop p xs first i = (ys, n) \<Longrightarrow>
   take n ys = take first xs @ filter (\<lambda>x. \<not> p x) (drop i xs)"
proof (induction p xs first i arbitrary: ys n rule: remove_if_loop.induct)
  case (1 p xs first i)
  note unfold = remove_if_loop.simps[of p xs first i]
  show ?case
  proof (cases "i < length xs")
    case False
    then have "ys = xs" and "n = first" using "1.prems"(3) unfold by simp_all
    with False "1.prems" show ?thesis by simp
  next
    case lt: True
    have dr: "drop i xs = xs ! i # drop (Suc i) xs"
      using lt by (simp add: Cons_nth_drop_Suc)
    show ?thesis
    proof (cases "p (xs ! i)")
      case True
      with lt "1.prems"(3) unfold have r: "remove_if_loop p xs first (Suc i) = (ys, n)" by simp
      have "take n ys = take first xs @ filter (\<lambda>x. \<not> p x) (drop (Suc i) xs)"
        using "1.IH"(2)[OF lt _ _ _ r] True lt "1.prems" by simp
      with True dr show ?thesis by simp
    next
      case False
      let ?xs' = "xs[first := xs ! i]"
      from False lt "1.prems"(3) unfold
      have r: "remove_if_loop p ?xs' (Suc first) (Suc i) = (ys, n)" by simp
      have "take n ys = take (Suc first) ?xs' @ filter (\<lambda>x. \<not> p x) (drop (Suc i) ?xs')"
        using "1.IH"(1)[OF lt False _ _ r] "1.prems" lt by simp
      moreover have "take (Suc first) ?xs' = take first xs @ [xs ! i]"
        using "1.prems" lt by (simp add: take_Suc_conv_app_nth)
      moreover have "drop (Suc i) ?xs' = drop (Suc i) xs"
        using "1.prems" by simp
      ultimately show ?thesis using dr False by simp
    qed
  qed
qed

lemma erase_remove_if: "erase_to_end (remove_if p xs) = filter (\<lambda>x. \<not> p x) xs"
proof -
  obtain ys n where r: "remove_if_loop p xs 0 0 = (ys, n)" by (cases "remove_if_loop p xs 0 0")
  from remove_if_loop_take[OF _ _ r] show ?thesis
    by (simp add: erase_to_end_def remove_if_def r)
qed

lemma for_each_view:
  assumes "\<And>x s x' s'. body x s = (x', s') \<Longrightarrow> view s' = view s"
  shows "for_each body xs s = (xs', s') \<Longrightarrow> view s' = view s"
proof (induction xs arbitrary: s xs' s')
  case Nil
  then show ?case by simp
next
  case (Cons x xs)
  obtain x1 s1 where b: "body x s = (x1, s1)" by (cases "body x s")
  obtain xs2 s2 where r: "for_each body xs s1 = (xs2, s2)" by (cases "for_each body xs s1")
  from Cons.prems b r have "s' = s2" by simp
  with Cons.IH[OF r] assms[OF b] show ?case by simp
qed

lemma for_each_invariant:
  assumes "\<And>x s x' s'. body x s = (x', s') \<Longrightarrow> P s \<Longrightarrow> P s'"
  shows "for_each body xs s = (xs', s') \<Longrightarrow> P s \<Longrightarrow> P s'"
proof (induction xs arbitrary: s xs' s')
  case Nil
  then show ?case by simp
next
  case (Cons x xs)
  obtain x1 s1 where b: "body x s = (x1, s1)" by (cases "body x s")
  obtain xs2 s2 where r: "for_each body xs s1 = (xs2, s2)" by (cases "for_each body xs s1")
  from Cons.prems b r have "s' = s2" by simp
  with Cons.IH[OF r] assms[OF b] Cons.prems(2) show ?case by simp
qed

subsection \<open>What each phase of the tick leaves alone\<close>

lemma clocks_player_penalty: "clocks (player_penalty g) = clocks g"
  by (simp add: player_penalty_def Let_def)

lemma clocks_move_player: "clocks (move_player g) = clocks g"
  by (simp add: move_player_def Let_def)

lemma clocks_update_bullets: "clocks (update_bullets g) = clocks g"
proof -
  obtain bs g' where r: "for_each bullet_move (bullets g) g = (bs, g')"
    by (cases "for_each bullet_move (bullets g) g")
  have "clocks g' = clocks g"
    by (rule for_each_view[OF _ r]) (auto simp: bullet_move_def Let_def split: if_splits)
  with r show ?thesis by (simp add: update_bullets_def)
qed

lemma clocks_update_enemies: "clocks (update_enemies g) = clocks g"
proof -
  obtain es g' where r: "for_each enemy_body (enemies g) g = (es, g')"
    by (cases "for_each enemy_body (enemies g) g")
  have "clocks g' = clocks g"
    by (rule for_each_view[OF _ r]) (auto simp: enemy_body_def Let_def split: if_splits)
  with r show ?thesis by (simp add: update_enemies_def)
qed

lemma clocks_bullet_body: "bullet_body b g = (b', g') \<Longrightarrow> clocks g' = clocks g"
proof (cases "b_active b")
  case False
  assume "bullet_body b g = (b', g')"
  with False show ?thesis by (simp add: bullet_body_def)
next
  case True
  assume bb: "bullet_body b g = (b', g')"
  obtain es b1 g1 where r: "for_each hit_check (enemies g) (b, g) = (es, (b1, g1))"
    by (cases "for_each hit_check (enemies g) (b, g)") auto
  have "(clocks \<circ> snd) (b1, g1) = (clocks \<circ> snd) (b, g)"
    by (rule for_each_view[OF _ r]) (auto simp: hit_check_def Let_def split: if_splits)
  with bb True r show ?thesis by (auto simp: bullet_body_def)
qed

lemma clocks_bullet_enemy_collision: "clocks (bullet_enemy_collision g) = clocks g"
proof -
  obtain bs g' where r: "for_each bullet_body (bullets g) g = (bs, g')"
    by (cases "for_each bullet_body (bullets g) g")
  have "clocks g' = clocks g"
    by (rule for_each_view[OF _ r]) (rule clocks_bullet_body)
  with r show ?thesis by (simp add: bullet_enemy_collision_def)
qed

lemma clocks_update_powerups: "clocks (update_powerups g) = clocks g"
proof -
  obtain us g' where r: "for_each powerup_body (powerUps g) g = (us, g')"
    by (cases "for_each powerup_body (powerUps g) g")
  have "clocks g' = clocks g"
    by (rule for_each_view[OF _ r]) (auto simp: powerup_body_def Let_def split: if_splits)
  with r show ?thesis by (simp add: update_powerups_def)
qed

lemma clocks_cleanup: "clocks (cleanup g) = clocks g"
  by (simp add: cleanup_def)

lemma level_after_clock:
  "(currentLevel (update r s), enemySpawnRate (update r s), gameLevelTimer (update r s)) =
   (if gameState s = PLAYING
    then (let g = level_management (tick_timers s)
          in (currentLevel g, enemySpawnRate g, gameLevelTimer g))
    else (currentLevel s, enemySpawnRate s, gameLevelTimer s))"
proof (cases "gameState s = PLAYING")
  case False
  then show ?thesis by (simp add: update_def)
next
  case True
  let ?g = "level_management (tick_timers s)"
  have "clocks (update r s) = clocks (simulate r s)"
    using True by (simp add: update_def clocks_cleanup)
  also have "\<dots> = clocks (spawn_powerups r (bullet_enemy_collision (update_enemies
       (spawn_enemies r (update_bullets (move_player (player_penalty ?g)))))))"
    by (simp add: simulate_def clocks_update_powerups)
  finally have a: "clocks (update r s) = clocks (spawn_powerups r (bullet_enemy_collision
       (update_enemies (spawn_enemies r (update_bullets (move_player (player_penalty ?g)))))))" .
  have sp: "\<And>g. (currentLevel (spawn_powerups r g), enemySpawnRate (spawn_powerups r g),
              gameLevelTimer (spawn_powerups r g)) = (currentLevel g, enemySpawnRate g, gameLevelTimer g)"
    by (simp add: spawn_powerups_def Let_def)
  have se: "\<And>g. (currentLevel (spawn_enemies r g), enemySpawnRate (spawn_enemies r g),
              gameLevelTimer (spawn_enemies r g)) = (currentLevel g, enemySpawnRate g, gameLevelTimer g)"
    by (simp add: spawn_enemies_def Let_def)
  have b: "\<And>g. clocks (bullet_enemy_collision (update_enemies g)) = clocks g"
    by (simp add: clocks_bullet_enemy_collision clocks_update_enemies)
  have c: "\<And>g. clocks (update_bullets (move_player (player_penalty g))) = clocks g"
    by (simp add: clocks_update_bullets clocks_move_player clocks_player_penalty)
  from a sp se b c True show ?thesis
    by (simp add: Let_def)
qed

lemma update_bullets_shape: "\<exists>bs. update_bullets g = g\<lparr> bullets := bs \<rparr>"
proof -
  obtain bs g' where r: "for_each bullet_move (bullets g) g = (bs, g')"
    by (cases "for_each bullet_move (bullets g) g")
  have "g' = g"
    by (rule for_each_view[where view = "\<lambda>s. s", OF _ r])
       (auto simp: bullet_move_def Let_def split: if_splits)
  with r show ?thesis by (auto simp: update_bullets_def)
qed

lemma update_enemies_shape:
  "\<exists>es p st. update_enemies g = g\<lparr> enemies := es, player := p, gameState := st \<rparr>"
proof -
  obtain es g' where r: "for_each enemy_body (enemies g) g = (es, g')"
    by (cases "for_each enemy_body (enemies g) g")
  have "g'\<lparr> player := player g, gameState := gameState g \<rparr>
        = g\<lparr> player := player g, gameState := gameState g \<rparr>"
    by (rule for_each_view[where view = "\<lambda>s. s\<lparr> player := player g, gameState := gameState g \<rparr>",
          OF _ r])
       (auto simp: enemy_body_def Let_def split: if_splits)
  then have "g' = g\<lparr> player := player g', gameState := gameState g' \<rparr>"
    by (cases g, cases g') simp
  with r have "update_enemies g = g\<lparr> enemies := es, player := player g', gameState := gameState g' \<rparr>"
    by (cases g, cases g') (simp add: update_enemies_def)
  then show ?thesis by blast
qed

lemma update_powerups_shape:
  "\<exists>us p. update_powerups g = g\<lparr> powerUps := us, player := p \<rparr>"
proof -
  obtain us g' where r: "for_each powerup_body (powerUps g) g = (us, g')"
    by (cases "for_each powerup_body (powerUps g) g")
  have "g'\<lparr> player := player g \<rparr> = g\<lparr> player := player g \<rparr>"
    by (rule for_each_view[where view = "\<lambda>s. s\<lparr> player := player g \<rparr>", OF _ r])
       (auto simp: powerup_body_def Let_def split: if_splits)
  then have "g' = g\<lparr> player := player g' \<rparr>"
    by (cases g, cases g') simp
  with r have "update_powerups g = g\<lparr> powerUps := us, player := player g' \<rparr>"
    by (cases g, cases g') (simp add: update_powerups_def)
  then show ?thesis by blast
qed

lemma bullet_body_view:
  assumes "bullet_body b g = (b', g')"
  shows "g'\<lparr> enemies := c1, player := c2, lastHitTimer := c3 \<rparr>
         = g\<lparr> enemies := c1, player := c2, lastHitTimer := c3 \<rparr>"
proof (cases "b_active b")
  case False
  with assms show ?thesis by (simp add: bullet_body_def)
next
  case True
  obtain es b1 g1 where r: "for_each hit_check (enemies g) (b, g) = (es, (b1, g1))"
    by (cases "for_each hit_check (enemies g) (b, g)") auto
  have "(\<lambda>bg. (snd bg)\<lparr> player := c2, lastHitTimer := c3 \<rparr>) (b1, g1)
        = (\<lambda>bg. (snd bg)\<lparr> player := c2, lastHitTimer := c3 \<rparr>) (b, g)"
    by (rule for_each_view[OF _ r]) (auto simp: hit_check_def Let_def split: if_splits)
  then have "g1\<lparr> player := c2, lastHitTimer := c3 \<rparr> = g\<lparr> player := c2, lastHitTimer := c3 \<rparr>"
    by simp
  then have "g1\<lparr> enemies := c1, player := c2, lastHitTimer := c3 \<rparr>
             = g\<lparr> enemies := c1, player := c2, lastHitTimer := c3 \<rparr>"
    by (cases g, cases g1) simp
  moreover from assms True r have "g' = g1\<lparr> enemies := es \<rparr>" by (simp add: bullet_body_def)
  ultimately show ?thesis by simp
qed

lemma bullet_enemy_collision_shape:
  "\<exists>bs es p t. bullet_enemy_collision g
      = g\<lparr> bullets := bs, enemies := es, player := p, lastHitTimer := t \<rparr>"
proof -
  obtain bs g' where r: "for_each bullet_body (bullets g) g = (bs, g')"
    by (cases "for_each bullet_body (bullets g) g")
  have "g'\<lparr> enemies := enemies g, player := player g, lastHitTimer := lastHitTimer g \<rparr>
        = g\<lparr> enemies := enemies g, player := player g, lastHitTimer := lastHitTimer g \<rparr>"
    by (rule for_each_view[where view = "\<lambda>s. s\<lparr> enemies := enemies g, player := player g,
          lastHitTimer := lastHitTimer g \<rparr>", OF _ r]) (rule bullet_body_view)
  then have "g' = g\<lparr> enemies := enemies g', player := player g', lastHitTimer := lastHitTimer g' \<rparr>"
    by (cases g, cases g') simp
  with r have "bullet_enemy_collision g
      = g\<lparr> bullets := bs, enemies := enemies g', player := player g', lastHitTimer := lastHitTimer g' \<rparr>"
    by (cases g, cases g') (simp add: bullet_enemy_collision_def)
  then show ?thesis by blast
qed

lemma hit_check_lastHit:
  "hit_check e bg = (e', bg') \<Longrightarrow> 0 \<le> lastHitTimer (snd bg) \<and> lastHitTimer (snd bg) \<le> c
   \<Longrightarrow> 0 \<le> lastHitTimer (snd bg') \<and> lastHitTimer (snd bg') \<le> c"
  by (cases bg) (auto simp: hit_check_def Let_def split: if_splits)

lemma bullet_body_lastHit:
  assumes "bullet_body b g = (b', g')" and "0 \<le> lastHitTimer g \<and> lastHitTimer g \<le> c"
  shows "0 \<le> lastHitTimer g' \<and> lastHitTimer g' \<le> c"
proof (cases "b_active b")
  case False
  with assms show ?thesis by (simp add: bullet_body_def)
next
  case True
  obtain es b1 g1 where r: "for_each hit_check (enemies g) (b, g) = (es, (b1, g1))"
    by (cases "for_each hit_check (enemies g) (b, g)") auto
  have "0 \<le> lastHitTimer (snd (b1, g1)) \<and> lastHitTimer (snd (b1, g1)) \<le> c"
    by (rule for_each_invariant[where P = "\<lambda>bg. 0 \<le> lastHitTimer (snd bg) \<and> lastHitTimer (snd bg) \<le> c",
          OF _ r]) (use assms(2) in \<open>auto dest: hit_check_lastHit\<close>)
  moreover from assms True r have "g' = g1\<lparr> enemies := es \<rparr>" by (simp add: bullet_body_def)
  ultimately show ?thesis by simp
qed

lemma bullet_enemy_collision_lastHit:
  assumes "0 \<le> lastHitTimer g \<and> lastHitTimer g \<le> c"
  shows "0 \<le> lastHitTimer (bullet_enemy_collision g) \<and> lastHitTimer (bullet_enemy_collision g) \<le> c"
proof -
  obtain bs g' where r: "for_each bullet_body (bullets g) g = (bs, g')"
    by (cases "for_each bullet_body (bullets g) g")
  have "0 \<le> lastHitTimer g' \<and> lastHitTimer g' \<le> c"
    by (rule for_each_invariant[where P = "\<lambda>s. 0 \<le> lastHitTimer s \<and> lastHitTimer s \<le> c", OF _ r assms])
       (rule bullet_body_lastHit)
  with r show ?thesis by (simp add: bullet_enemy_collision_def)
qed

lemma bullet_enemy_collision_no_enemies:
  assumes "enemies g = []"
  shows "enemies (bullet_enemy_collision g) = []"
proof -
  obtain bs g' where r: "for_each bullet_body (bullets g) g = (bs, g')"
    by (cases "for_each bullet_body (bullets g) g")
  have "enemies g' = []"
    by (rule for_each_invariant[where P = "\<lambda>s. enemies s = []", OF _ r assms])
       (auto simp: bullet_body_def split: if_splits)
  with r show ?thesis by (simp add: bullet_enemy_collision_def)
qed

lemma tick_timers_frame:
  "enemies (tick_timers g) = enemies g"
  "powerUps (tick_timers g) = powerUps g"
  "enemySpawnRate (tick_timers g) = enemySpawnRate g"
  "enemySpawnTimer (tick_timers g) = enemySpawnTimer g + 1"
  "powerUpTimer (tick_timers g) = powerUpTimer g + 1"
  "gameLevelTimer (tick_timers g) = gameLevelTimer g + 1"
  "lastHitTimer (tick_timers g) = lastHitTimer g + 1"
  by (simp_all add: tick_timers_def Let_def)

lemma level_management_frame:
  "enemies (level_management g) = enemies g"
  "powerUps (level_management g) = powerUps g"
  "enemySpawnTimer (level_management g) = enemySpawnTimer g"
  "powerUpTimer (level_management g) = powerUpTimer g"
  "lastHitTimer (level_management g) = lastHitTimer g"
  by (simp_all add: level_management_def Let_def)

lemma player_penalty_frame:
  "enemies (player_penalty g) = enemies g"
  "powerUps (player_penalty g) = powerUps g"
  by (simp_all add: player_penalty_def Let_def)

lemma move_player_frame:
  "lastHitTimer (move_player g) = lastHitTimer g"
  "gameState (move_player g) = gameState g"
  "enemies (move_player g) = enemies g"
  "powerUps (move_player g) = powerUps g"
  by (simp_all add: move_player_def Let_def split del: if_split)

lemma spawn_enemies_frame:
  "lastHitTimer (spawn_enemies r g) = lastHitTimer g"
  "gameState (spawn_enemies r g) = gameState g"
  "powerUps (spawn_enemies r g) = powerUps g"
  "powerUpTimer (spawn_enemies r g) = powerUpTimer g"
  by (simp_all add: spawn_enemies_def Let_def)

lemma spawn_powerups_frame:
  "lastHitTimer (spawn_powerups r g) = lastHitTimer g"
  "gameState (spawn_powerups r g) = gameState g"
  "enemies (spawn_powerups r g) = enemies g"
  "enemySpawnRate (spawn_powerups r g) = enemySpawnRate g"
  "enemySpawnTimer (spawn_powerups r g) = enemySpawnTimer g"
  "gameLevelTimer (spawn_powerups r g) = gameLevelTimer g"
  by (simp_all add: spawn_powerups_def Let_def)

lemma cleanup_frame:
  "lastHitTimer (cleanup g) = lastHitTimer g"
  "gameState (cleanup g) = gameState g"
  by (simp_all add: cleanup_def)

lemma update_bullets_frame:
  "lastHitTimer (update_bullets g) = lastHitTimer g"
  "gameState (update_bullets g) = gameState g"
  "enemies (update_bullets g) = enemies g"
  "powerUps (update_bullets g) = powerUps g"
  using update_bullets_shape[of g] by auto

lemma update_enemies_frame:
  "lastHitTimer (update_enemies g) = lastHitTimer g"
  "powerUps (update_enemies g) = powerUps g"
  using update_enemies_shape[of g] by auto

lemma update_powerups_frame:
  "lastHitTimer (update_powerups g) = lastHitTimer g"
  "gameState (update_powerups g) = gameState g"
  "enemies (update_powerups g) = enemies g"
  using update_powerups_shape[of g] by auto

lemma bullet_enemy_collision_frame:
  "gameState (bullet_enemy_collision g) = gameState g"
  "powerUps (bullet_enemy_collision g) = powerUps g"
  using bullet_enemy_collision_shape[of g] by auto

lemma update_enemies_game_over:
  assumes "gameState g = GAME_OVER"
  shows "gameState (update_enemies g) = GAME_OVER"
proof -
  obtain es g' where r: "for_each enemy_body (enemies g) g = (es, g')"
    by (cases "for_each enemy_body (enemies g) g")
  have "gameState g' = GAME_OVER"
    by (rule for_each_invariant[where P = "\<lambda>s. gameState s = GAME_OVER", OF _ r assms])
       (auto simp: enemy_body_def Let_def split: if_splits)
  with r show ?thesis by (simp add: update_enemies_def)
qed

subsection \<open>The part of a PLAYING tick that follows the penalty block\<close>

lemma simulate_after_penalty:
  "simulate r s = update_powerups (spawn_powerups r (bullet_enemy_collision (update_enemies
     (spawn_enemies r (update_bullets (move_player
        (player_penalty (level_management (tick_timers s)))))))))"
  by (simp add: simulate_def)

lemma lastHit_rest_of_tick:
  assumes "0 \<le> lastHitTimer g \<and> lastHitTimer g \<le> c"
  shows "0 \<le> lastHitTimer (cleanup (update_powerups (spawn_powerups r (bullet_enemy_collision
            (update_enemies (spawn_enemies r (update_bullets (move_player g))))))))
       \<and> lastHitTimer (cleanup (update_powerups (spawn_powerups r (bullet_enemy_collision
            (update_enemies (spawn_enemies r (update_bullets (move_player g)))))))) \<le> c"
proof -
  let ?g4 = "update_enemies (spawn_enemies r (update_bullets (move_player g)))"
  have "lastHitTimer ?g4 = lastHitTimer g"
    by (simp add: update_enemies_frame spawn_enemies_frame update_bullets_frame move_player_frame)
  with assms have "0 \<le> lastHitTimer ?g4 \<and> lastHitTimer ?g4 \<le> c" by simp
  from bullet_enemy_collision_lastHit[OF this]
  show ?thesis
    by (simp add: cleanup_frame update_powerups_frame spawn_powerups_frame)
qed

lemma game_over_rest_of_tick:
  assumes "gameState g = GAME_OVER"
  shows "gameState (cleanup (update_powerups (spawn_powerups r (bullet_enemy_collision
            (update_enemies (spawn_enemies r (update_bullets (move_player g)))))))) = GAME_OVER"
proof -
  have "gameState (spawn_enemies r (update_bullets (move_player g))) = GAME_OVER"
    using assms by (simp add: spawn_enemies_frame update_bullets_frame move_player_frame)
  from update_enemies_game_over[OF this]
  show ?thesis
    by (simp add: cleanup_frame update_powerups_frame spawn_powerups_frame
        bullet_enemy_collision_frame)
qed

lemma lastHit_update:
  assumes "0 \<le> lastHitTimer s" and "lastHitTimer s \<le> c"
  shows "0 \<le> lastHitTimer (update r s) \<and> lastHitTimer (update r s) \<le> c + 1"
proof (cases "gameState s = PLAYING")
  case False
  with assms show ?thesis by (simp add: update_def)
next
  case True
  let ?g = "player_penalty (level_management (tick_timers s))"
  have "0 \<le> lastHitTimer ?g \<and> lastHitTimer ?g \<le> c + 1"
    using assms by (simp add: player_penalty_def level_management_def tick_timers_def Let_def)
  from lastHit_rest_of_tick[OF this, of r] True show ?thesis
    by (simp add: update_def simulate_after_penalty)
qed

lemma lastHit_run:
  "0 \<le> lastHitTimer g \<Longrightarrow>
   0 \<le> lastHitTimer (run rs g) \<and> lastHitTimer (run rs g) \<le> lastHitTimer g + real (length rs)"
proof (induction rs arbitrary: g)
  case Nil
  then show ?case by (simp add: run_def)
next
  case (Cons r rs)
  from lastHit_update[OF Cons.prems order_refl, of r]
  have u: "0 \<le> lastHitTimer (update r g)" "lastHitTimer (update r g) \<le> lastHitTimer g + 1"
    by simp_all
  from Cons.IH[OF u(1)] u(2) show ?case by (simp add: run_def)
qed

subsection \<open>A run that starts with no enemy and no power-up\<close>

lemma no_enemy_step:
  assumes e: "enemies g = []" and rate: "enemySpawnRate g = 60"
    and est: "enemySpawnTimer g \<le> c" and glt: "gameLevelTimer g \<le> c" and c: "c + 1 \<le> 60"
  shows "enemies (update r g) = [] \<and> enemySpawnRate (update r g) = 60
       \<and> enemySpawnTimer (update r g) \<le> c + 1 \<and> gameLevelTimer (update r g) \<le> c + 1"
proof (cases "gameState g = PLAYING")
  case False
  with assms show ?thesis by (simp add: update_def)
next
  case True
  define g1 where "g1 = level_management (tick_timers g)"
  define g2 where "g2 = update_bullets (move_player (player_penalty g1))"
  define g4 where "g4 = update_enemies (spawn_enemies r g2)"
  define g5 where "g5 = bullet_enemy_collision g4"
  define g6 where "g6 = update_powerups (spawn_powerups r g5)"
  have upd: "update r g = cleanup g6"
    using True by (simp add: update_def simulate_def g1_def g2_def g4_def g5_def g6_def)
  have i1: "enemies g1 = [] \<and> enemySpawnRate g1 = 60 \<and> enemySpawnTimer g1 \<le> c + 1
            \<and> gameLevelTimer g1 \<le> c + 1"
    using assms by (simp add: g1_def level_management_def tick_timers_def Let_def)
  have "clocks g2 = clocks g1"
    by (simp add: g2_def clocks_update_bullets clocks_move_player clocks_player_penalty)
  moreover have "enemies g2 = enemies g1"
    by (simp add: g2_def update_bullets_frame move_player_frame player_penalty_frame)
  ultimately have i2: "enemies g2 = [] \<and> enemySpawnRate g2 = 60 \<and> enemySpawnTimer g2 \<le> c + 1
            \<and> gameLevelTimer g2 \<le> c + 1"
    using i1 by simp
  then have sp: "spawn_enemies r g2 = g2" using c by (simp add: spawn_enemies_def)
  have "clocks g4 = clocks g2" by (simp add: g4_def sp clocks_update_enemies)
  moreover have "enemies g4 = []" using i2 by (simp add: g4_def sp update_enemies_def)
  ultimately have i4: "enemies g4 = [] \<and> enemySpawnRate g4 = 60 \<and> enemySpawnTimer g4 \<le> c + 1
            \<and> gameLevelTimer g4 \<le> c + 1"
    using i2 by simp
  have "clocks g5 = clocks g4" by (simp add: g5_def clocks_bullet_enemy_collision)
  moreover have "enemies g5 = []"
    using i4 by (simp add: g5_def bullet_enemy_collision_no_enemies)
  ultimately have i5: "enemies g5 = [] \<and> enemySpawnRate g5 = 60 \<and> enemySpawnTimer g5 \<le> c + 1
            \<and> gameLevelTimer g5 \<le> c + 1"
    using i4 by simp
  have "clocks g6 = clocks (spawn_powerups r g5)" by (simp add: g6_def clocks_update_powerups)
  moreover have "enemies g6 = enemies g5"
    by (simp add: g6_def update_powerups_frame spawn_powerups_frame)
  ultimately have i6: "enemies g6 = [] \<and> enemySpawnRate g6 = 60 \<and> enemySpawnTimer g6 \<le> c + 1
            \<and> gameLevelTimer g6 \<le> c + 1"
    using i5 by (simp add: spawn_powerups_frame)
  then show ?thesis
    by (simp add: upd cleanup_def erase_remove_if)
qed

lemma no_enemy_run:
  "enemies g = [] \<Longrightarrow> enemySpawnRate g = 60 \<Longrightarrow> enemySpawnTimer g \<le> c \<Longrightarrow>
   gameLevelTimer g \<le> c \<Longrightarrow> c + real (length rs) \<le> 60 \<Longrightarrow> enemies (run rs g) = []"
proof (induction rs arbitrary: g c)
  case Nil
  then show ?case by (simp add: run_def)
next
  case (Cons r rs)
  from Cons.prems have "c + 1 \<le> 60" by simp
  from no_enemy_step[OF Cons.prems(1-4) this, of r] Cons.prems(5)
  have "enemies (run rs (update r g)) = []"
    by (intro Cons.IH[where c = "c + 1"]) simp_all
  then show ?case by (simp add: run_def)
qed

lemma no_powerup_step:
  assumes u: "powerUps g = []" and put: "powerUpTimer g \<le> c" and c: "c + 1 \<le> 300"
  shows "powerUps (update r g) = [] \<and> powerUpTimer (update r g) \<le> c + 1"
proof (cases "gameState g = PLAYING")
  case False
  with assms show ?thesis by (simp add: update_def)
next
  case True
  define g3 where "g3 = spawn_enemies r (update_bullets (move_player (player_penalty
                          (level_management (tick_timers g)))))"
  define g5 where "g5 = bullet_enemy_collision (update_enemies g3)"
  have upd: "update r g = cleanup (update_powerups (spawn_powerups r g5))"
    using True by (simp add: update_def simulate_def g3_def g5_def)
  have "powerUpTimer g3 = powerUpTimer (level_management (tick_timers g))"
    using clocks_update_bullets[of "move_player (player_penalty (level_management (tick_timers g)))"]
      clocks_move_player[of "player_penalty (level_management (tick_timers g))"]
      clocks_player_penalty[of "level_management (tick_timers g)"]
    by (simp add: g3_def spawn_enemies_frame)
  moreover have "powerUps g3 = powerUps g"
    by (simp add: g3_def spawn_enemies_frame update_bullets_frame move_player_frame
        player_penalty_frame level_management_frame tick_timers_frame)
  ultimately have i3: "powerUps g3 = [] \<and> powerUpTimer g3 \<le> c + 1"
    using u put by (simp add: level_management_frame tick_timers_frame)
  have "powerUpTimer g5 = powerUpTimer g3"
    using clocks_bullet_enemy_collision[of "update_enemies g3"] clocks_update_enemies[of g3]
    by (simp add: g5_def)
  moreover have "powerUps g5 = powerUps g3"
    by (simp add: g5_def bullet_enemy_collision_frame update_enemies_frame)
  ultimately have i5: "powerUps g5 = [] \<and> powerUpTimer g5 \<le> c + 1" using i3 by simp
  then have sp: "spawn_powerups r g5 = g5" using c by (simp add: spawn_powerups_def)
  have "powerUps (update_powerups g5) = []" using i5 by (simp add: update_powerups_def)
  moreover have "powerUpTimer (update_powerups g5) = powerUpTimer g5"
    using clocks_update_powerups[of g5] by simp
  ultimately show ?thesis
    using i5 by (simp add: upd sp cleanup_def erase_remove_if)
qed

lemma no_powerup_run:
  "powerUps g = [] \<Longrightarrow> powerUpTimer g \<le> c \<Longrightarrow> c + real (length rs) \<le> 300 \<Longrightarrow>
   powerUps (run rs g) = []"
proof (induction rs arbitrary: g c)
  case Nil
  then show ?case by (simp add: run_def)
next
  case (Cons r rs)
  from Cons.prems have "c + 1 \<le> 300" by simp
  from no_powerup_step[OF Cons.prems(1,2) this, of r] Cons.prems(3)
  have "powerUps (run rs (update r g)) = []"
    by (intro Cons.IH[where c = "c + 1"]) simp_all
  then show ?case by (simp add: run_def)
qed

subsection \<open>Evaluating a tick on a concrete state\<close>

lemmas tick_defs =
  update_def simulate_def tick_timers_def level_management_def player_penalty_def
  move_player_def update_bullets_def bullet_move_def spawn_enemies_def update_enemies_def
  enemy_body_def bullet_enemy_collision_def bullet_body_def hit_check_def spawn_powerups_def
  update_powerups_def powerup_body_def cleanup_def erase_remove_if Let_def sqrt_less_iff
  WIDTH_def HEIGHT_def int32_def

section \<open>The claims\<close>

text \<open>
  C1 (lives stay within 0..5 over every tick). The code breaks the lower bound: the
  player-enemy collision in \<open>enemy_body\<close> decrements \<open>lives\<close> with no test, and the loop
  goes on after the game is over. Below, a PLAYING state with one life left and two enemies
  that both come within \<open>p_size + 15\<close> of the player in the same tick: after the tick
  \<open>lives = -1\<close>. The penalty block and the power-up pickup do test before they write.
\<close>

theorem enemy_collisions_make_lives_negative:
  "(let s = \<lparr> gameState = PLAYING,
               player = \<lparr> p_x = 400, p_y = 50, p_size = 20, p_speed = 5, lives = 1, score = 340 \<rparr>,
               bullets = [],
               enemies = [\<lparr> e_x = 386, e_y = 85.5, e_speed = 3.5, e_active = True, e_type = 0 \<rparr>,
                          \<lparr> e_x = 410, e_y = 87, e_speed = 4.5, e_active = True, e_type = 2 \<rparr>],
               powerUps = [],
               starOffset = 100, enemySpawnTimer = 4, powerUpTimer = 120, gameLevelTimer = 500,
               currentLevel = 3, enemySpawnRate = 10, lastHitTimer = 40, playerShape = 0,
               keys = (\<lambda>c. False) \<rparr>;
        r = \<lparr> rand_ex1 = 1, rand_ex2 = 2, rand_espeed = 3, rand_etype = 4, rand_ux = 5 \<rparr>
    in 0 \<le> lives (player s) \<and> lives (player s) \<le> 5
       \<and> lives (player (update r s)) = - 1
       \<and> gameState (update r s) = GAME_OVER)"
  by (simp add: tick_defs)

text \<open>
  C2 (a bullet deactivates at most one enemy per tick). The code tests \<^verbatim>\<open>bullet.active\<close> once,
  before the inner loop, and the inner loop does not stop at a hit: a bullet within 20 of
  two active enemies deactivates both and scores twice. Below, one bullet and two enemies;
  after the tick no enemy is left and the score went up by 20.
\<close>

theorem one_bullet_hits_two_enemies:
  "(let s = \<lparr> gameState = PLAYING,
               player = \<lparr> p_x = 400, p_y = 50, p_size = 20, p_speed = 5, lives = 3, score = 0 \<rparr>,
               bullets = [\<lparr> b_x = 400, b_y = 230, b_speed = 10, b_active = True \<rparr>],
               enemies = [\<lparr> e_x = 392, e_y = 257.5, e_speed = 2.5, e_active = True, e_type = 0 \<rparr>,
                          \<lparr> e_x = 409, e_y = 258, e_speed = 4.5, e_active = True, e_type = 1 \<rparr>],
               powerUps = [],
               starOffset = 98.5, enemySpawnTimer = 14, powerUpTimer = 197, gameLevelTimer = 197,
               currentLevel = 1, enemySpawnRate = 60, lastHitTimer = 197, playerShape = 0,
               keys = (\<lambda>c. False) \<rparr>;
        r = \<lparr> rand_ex1 = 1, rand_ex2 = 2, rand_espeed = 3, rand_etype = 4, rand_ux = 5 \<rparr>
    in length (bullets s) = 1 \<and> length (filter e_active (enemies s)) = 2
       \<and> enemies (update r s) = []
       \<and> score (player (update r s)) = score (player s) + 20)"
  by (simp add: tick_defs)

text \<open>
  C3. One check of the bullet-enemy scan, for an active enemy and an active bullet, with
  \<open>d\<close> the Euclidean distance of their centres: if \<open>d < 20\<close> both are deactivated, the
  score becomes \<open>score + 10\<close> as a 32-bit int holds it, which is exactly \<open>score + 10\<close> for
  every score from \<open>-2\<^sup>3\<^sup>1\<close> to \<open>2\<^sup>3\<^sup>1 - 11\<close>, and \<open>lastHitTimer\<close> is 0; if \<open>d \<ge> 20\<close> the
  enemy, the bullet and the whole state are unchanged.
\<close>

theorem bullet_enemy_pair:
  "e_active enemy \<Longrightarrow> b_active bullet \<Longrightarrow>
   (let d = sqrt ((b_x bullet - e_x enemy)\<^sup>2 + (b_y bullet - e_y enemy)\<^sup>2)
    in case hit_check enemy (bullet, g) of (enemy', bullet', g') \<Rightarrow>
      (d < 20 \<longrightarrow>
         \<not> e_active enemy' \<and> \<not> b_active bullet'
         \<and> score (player g') = int32 (score (player g) + 10)
         \<and> (- 2147483648 \<le> score (player g) \<and> score (player g) \<le> 2147483637 \<longrightarrow>
              score (player g') = score (player g) + 10)
         \<and> lastHitTimer g' = 0)
      \<and> (d \<ge> 20 \<longrightarrow> enemy' = enemy \<and> bullet' = bullet \<and> g' = g))"
  by (simp add: hit_check_def Let_def power2_eq_square int32_in_range)

theorem bullet_enemy_pair_witness:
  "(let enemy = \<lparr> e_x = 392, e_y = 255, e_speed = 2.5, e_active = True, e_type = 0 \<rparr>;
        bullet = \<lparr> b_x = 400, b_y = 240, b_speed = 10, b_active = True \<rparr>;
        g = init\<lparr> gameState := PLAYING, lastHitTimer := 198 \<rparr>
    in e_active enemy \<and> b_active bullet
       \<and> sqrt ((b_x bullet - e_x enemy)\<^sup>2 + (b_y bullet - e_y enemy)\<^sup>2) < 20
       \<and> - 2147483648 \<le> score (player g) \<and> score (player g) \<le> 2147483637
       \<and> (case hit_check enemy (bullet, g) of (enemy', bullet', g') \<Rightarrow>
             \<not> e_active enemy' \<and> \<not> b_active bullet'
             \<and> score (player g') = score (player g) + 10 \<and> lastHitTimer g' = 0))
   \<and> (let enemy = \<lparr> e_x = 392, e_y = 255, e_speed = 2.5, e_active = True, e_type = 0 \<rparr>;
        bullet = \<lparr> b_x = 380, b_y = 239, b_speed = 10, b_active = True \<rparr>;
        g = init\<lparr> gameState := PLAYING, lastHitTimer := 198 \<rparr>
    in e_active enemy \<and> b_active bullet
       \<and> sqrt ((b_x bullet - e_x enemy)\<^sup>2 + (b_y bullet - e_y enemy)\<^sup>2) \<ge> 20
       \<and> (case hit_check enemy (bullet, g) of (enemy', bullet', g') \<Rightarrow>
             enemy' = enemy \<and> bullet' = bullet \<and> g' = g))"
  using
    bullet_enemy_pair[of "\<lparr> e_x = 392, e_y = 255, e_speed = 2.5, e_active = True, e_type = 0 \<rparr>"
      "\<lparr> b_x = 400, b_y = 240, b_speed = 10, b_active = True \<rparr>"
      "init\<lparr> gameState := PLAYING, lastHitTimer := 198 \<rparr>"]
    bullet_enemy_pair[of "\<lparr> e_x = 392, e_y = 255, e_speed = 2.5, e_active = True, e_type = 0 \<rparr>"
      "\<lparr> b_x = 380, b_y = 239, b_speed = 10, b_active = True \<rparr>"
      "init\<lparr> gameState := PLAYING, lastHitTimer := 198 \<rparr>"]
  by (simp add: Let_def sqrt_less_iff sqrt_le_iff power2_eq_square hit_check_def init_def int32_def)

text \<open>Without the bound on the score the increase is not 10: ten points from the top of the
  range the addition wraps to a negative score.\<close>

theorem bullet_enemy_pair_counterexample:
  "e_active \<lparr> e_x = 392, e_y = 255, e_speed = 2.5, e_active = True, e_type = 0 \<rparr>
   \<and> b_active \<lparr> b_x = 400, b_y = 240, b_speed = 10, b_active = True \<rparr>
   \<and> sqrt ((400 - 392)\<^sup>2 + (240 - 255)\<^sup>2) < (20::real)
   \<and> score (player (init\<lparr> gameState := PLAYING,
          player := (player init)\<lparr> score := 2147483640 \<rparr> \<rparr>)) = 2147483640
   \<and> score (player (snd (snd (hit_check
         \<lparr> e_x = 392, e_y = 255, e_speed = 2.5, e_active = True, e_type = 0 \<rparr>
         (\<lparr> b_x = 400, b_y = 240, b_speed = 10, b_active = True \<rparr>,
          init\<lparr> gameState := PLAYING,
          player := (player init)\<lparr> score := 2147483640 \<rparr> \<rparr>))))) = - 2147483646
   \<and> score (player (snd (snd (hit_check
         \<lparr> e_x = 392, e_y = 255, e_speed = 2.5, e_active = True, e_type = 0 \<rparr>
         (\<lparr> b_x = 400, b_y = 240, b_speed = 10, b_active = True \<rparr>,
          init\<lparr> gameState := PLAYING,
          player := (player init)\<lparr> score := 2147483640 \<rparr> \<rparr>)))))
       \<noteq> score (player (init\<lparr> gameState := PLAYING,
          player := (player init)\<lparr> score := 2147483640 \<rparr> \<rparr>)) + 10"
  by (simp add: hit_check_def Let_def sqrt_less_iff power2_eq_square init_def int32_def)

text \<open>
  C4. In a PLAYING tick in which the level timer reaches 900 (it is incremented first, so
  \<open>gameLevelTimer s + 1 \<ge> 900\<close>): below level 3 the level goes up by one and the spawn rate
  becomes \<open>60 - (currentLevel - 1) * 25\<close> of the new level (35 at level 2, 10 at level 3); at
  level 3 the level stays 3; in both cases the level timer is 0 after the tick. In every
  tick of every mode the level does not decrease.
\<close>

theorem level_up_rule:
  "(gameState s = PLAYING \<and> gameLevelTimer s + 1 \<ge> 900 \<longrightarrow>
      currentLevel (update r s) = (if currentLevel s < 3 then currentLevel s + 1 else currentLevel s)
    \<and> enemySpawnRate (update r s) =
        (if currentLevel s < 3 then 60 - (currentLevel (update r s) - 1) * 25 else enemySpawnRate s)
    \<and> gameLevelTimer (update r s) = 0
    \<and> (currentLevel s = 1 \<longrightarrow> currentLevel (update r s) = 2 \<and> enemySpawnRate (update r s) = 35)
    \<and> (currentLevel s = 2 \<longrightarrow> currentLevel (update r s) = 3 \<and> enemySpawnRate (update r s) = 10)
    \<and> (currentLevel s = 3 \<longrightarrow> currentLevel (update r s) = 3))
   \<and> currentLevel s \<le> currentLevel (update r s)"
  using level_after_clock[of r s]
  by (auto simp: Let_def level_management_def tick_timers_def split: if_splits)

theorem level_up_rule_witness:
  "(let s = init\<lparr> gameState := PLAYING, gameLevelTimer := 899 \<rparr>;
        r = \<lparr> rand_ex1 = 1, rand_ex2 = 2, rand_espeed = 3, rand_etype = 4, rand_ux = 5 \<rparr>
    in gameState s = PLAYING \<and> gameLevelTimer s + 1 \<ge> 900 \<and> currentLevel s = 1
       \<and> currentLevel (update r s) = 2 \<and> enemySpawnRate (update r s) = 35
       \<and> gameLevelTimer (update r s) = 0)
   \<and> (let s = init\<lparr> gameState := PLAYING, gameLevelTimer := 899, currentLevel := 2,
                     enemySpawnRate := 35 \<rparr>;
        r = \<lparr> rand_ex1 = 1, rand_ex2 = 2, rand_espeed = 3, rand_etype = 4, rand_ux = 5 \<rparr>
    in gameState s = PLAYING \<and> gameLevelTimer s + 1 \<ge> 900 \<and> currentLevel s = 2
       \<and> currentLevel (update r s) = 3 \<and> enemySpawnRate (update r s) = 10
       \<and> gameLevelTimer (update r s) = 0)
   \<and> (let s = init\<lparr> gameState := PLAYING, gameLevelTimer := 899, currentLevel := 3,
                     enemySpawnRate := 10 \<rparr>;
        r = \<lparr> rand_ex1 = 1, rand_ex2 = 2, rand_espeed = 3, rand_etype = 4, rand_ux = 5 \<rparr>
    in gameState s = PLAYING \<and> gameLevelTimer s + 1 \<ge> 900 \<and> currentLevel s = 3
       \<and> currentLevel (update r s) = 3 \<and> enemySpawnRate (update r s) = 10
       \<and> gameLevelTimer (update r s) = 0)"
  using
    level_up_rule[of "init\<lparr> gameState := PLAYING, gameLevelTimer := 899 \<rparr>"
      "\<lparr> rand_ex1 = 1, rand_ex2 = 2, rand_espeed = 3, rand_etype = 4, rand_ux = 5 \<rparr>"]
    level_up_rule[of "init\<lparr> gameState := PLAYING, gameLevelTimer := 899, currentLevel := 2,
                     enemySpawnRate := 35 \<rparr>"
      "\<lparr> rand_ex1 = 1, rand_ex2 = 2, rand_espeed = 3, rand_etype = 4, rand_ux = 5 \<rparr>"]
    level_up_rule[of "init\<lparr> gameState := PLAYING, gameLevelTimer := 899, currentLevel := 3,
                     enemySpawnRate := 10 \<rparr>"
      "\<lparr> rand_ex1 = 1, rand_ex2 = 2, rand_espeed = 3, rand_etype = 4, rand_ux = 5 \<rparr>"]
  by (simp add: init_def Let_def)

text \<open>
  C5. In a PLAYING tick in which the no-hit timer reaches 300 with \<open>lives > 0\<close>: after the
  penalty block \<open>lives\<close> is one less and \<open>lastHitTimer\<close> is 0; if that made \<open>lives = 0\<close> the
  mode is GAME_OVER there and at the end of the tick, otherwise the block leaves the mode
  PLAYING. \<open>lastHitTimer\<close> is 0 at the end of the tick, and in each of the next 299 ticks
  the timer stays below 300 when the penalty block is reached, so the block does nothing.
\<close>

theorem survival_penalty:
  "gameState s = PLAYING \<and> lastHitTimer s + 1 \<ge> 300 \<and> 0 < lives (player s) \<longrightarrow>
     (let g = player_penalty (level_management (tick_timers s))
      in lives (player g) = lives (player s) - 1
         \<and> lastHitTimer g = 0
         \<and> (lives (player g) = 0 \<longrightarrow> gameState g = GAME_OVER \<and> gameState (update r s) = GAME_OVER)
         \<and> (lives (player g) > 0 \<longrightarrow> gameState g = PLAYING))
     \<and> lastHitTimer (update r s) = 0
     \<and> (\<forall>rs. length rs < 299 \<longrightarrow>
           (let t = run rs (update r s); x = level_management (tick_timers t)
            in lastHitTimer x < 300 \<and> player_penalty x = x))"
proof (intro impI, elim conjE)
  assume playing: "gameState s = PLAYING" and due: "lastHitTimer s + 1 \<ge> 300"
    and alive: "0 < lives (player s)"
  let ?g = "player_penalty (level_management (tick_timers s))"
  have lv: "lives (player ?g) = lives (player s) - 1" and lh: "lastHitTimer ?g = 0"
    and st: "gameState ?g = (if lives (player s) = 1 then GAME_OVER else PLAYING)"
    using playing due alive
    by (auto simp: player_penalty_def level_management_def tick_timers_def Let_def)
  have upd: "update r s = cleanup (update_powerups (spawn_powerups r (bullet_enemy_collision
            (update_enemies (spawn_enemies r (update_bullets (move_player ?g)))))))"
    using playing by (simp add: update_def simulate_after_penalty)
  have over: "lives (player ?g) = 0 \<Longrightarrow> gameState (update r s) = GAME_OVER"
  proof -
    assume "lives (player ?g) = 0"
    with lv st have "gameState ?g = GAME_OVER" by simp
    from game_over_rest_of_tick[OF this, of r] upd show ?thesis by simp
  qed
  have "0 \<le> lastHitTimer ?g \<and> lastHitTimer ?g \<le> 0" using lh by simp
  from lastHit_rest_of_tick[OF this, of r] upd
  have zero: "lastHitTimer (update r s) = 0" by simp
  have later: "\<forall>rs. length rs < 299 \<longrightarrow>
           (let t = run rs (update r s); x = level_management (tick_timers t)
            in lastHitTimer x < 300 \<and> player_penalty x = x)"
  proof (intro allI impI)
    fix rs :: "rands list"
    assume n: "length rs < 299"
    let ?t = "run rs (update r s)"
    let ?x = "level_management (tick_timers ?t)"
    from lastHit_run[of "update r s" rs] zero
    have "lastHitTimer ?t \<le> real (length rs)" by simp
    with n have "lastHitTimer ?t < 299" by simp
    then have x: "lastHitTimer ?x < 300"
      by (simp add: level_management_def tick_timers_def Let_def)
    then have "player_penalty ?x = ?x" by (simp add: player_penalty_def)
    with x show "let t = run rs (update r s); x = level_management (tick_timers t)
            in lastHitTimer x < 300 \<and> player_penalty x = x"
      by (simp add: Let_def)
  qed
  from lv lh st over zero later
  show "(let g = player_penalty (level_management (tick_timers s))
      in lives (player g) = lives (player s) - 1
         \<and> lastHitTimer g = 0
         \<and> (lives (player g) = 0 \<longrightarrow> gameState g = GAME_OVER \<and> gameState (update r s) = GAME_OVER)
         \<and> (lives (player g) > 0 \<longrightarrow> gameState g = PLAYING))
     \<and> lastHitTimer (update r s) = 0
     \<and> (\<forall>rs. length rs < 299 \<longrightarrow>
           (let t = run rs (update r s); x = level_management (tick_timers t)
            in lastHitTimer x < 300 \<and> player_penalty x = x))"
    by (simp add: Let_def)
qed

theorem survival_penalty_witness:
  "(let s = init\<lparr> gameState := PLAYING, enemySpawnTimer := 55, powerUpTimer := 299,
              gameLevelTimer := 299, lastHitTimer := 299 \<rparr>;
        r = \<lparr> rand_ex1 = 1, rand_ex2 = 2, rand_espeed = 3, rand_etype = 4, rand_ux = 5 \<rparr>;
        g = player_penalty (level_management (tick_timers s))
    in gameState s = PLAYING \<and> lastHitTimer s + 1 \<ge> 300 \<and> 0 < lives (player s)
       \<and> lives (player g) = 2 \<and> lastHitTimer g = 0 \<and> gameState g = PLAYING
       \<and> lastHitTimer (update r s) = 0
       \<and> length [r, r] < 299
       \<and> (let x = level_management (tick_timers (run [r, r] (update r s)))
          in lastHitTimer x < 300 \<and> player_penalty x = x))
   \<and> (let s = init\<lparr> gameState := PLAYING, player := (player init)\<lparr> lives := 1 \<rparr>,
              enemySpawnTimer := 55, powerUpTimer := 299, gameLevelTimer := 299,
              lastHitTimer := 299 \<rparr>;
        r = \<lparr> rand_ex1 = 1, rand_ex2 = 2, rand_espeed = 3, rand_etype = 4, rand_ux = 5 \<rparr>;
        g = player_penalty (level_management (tick_timers s))
    in gameState s = PLAYING \<and> lastHitTimer s + 1 \<ge> 300 \<and> 0 < lives (player s)
       \<and> lives (player g) = 0 \<and> lastHitTimer g = 0
       \<and> gameState g = GAME_OVER \<and> gameState (update r s) = GAME_OVER)"
proof -
  let ?sa = "init\<lparr> gameState := PLAYING, enemySpawnTimer := 55, powerUpTimer := 299,
              gameLevelTimer := 299, lastHitTimer := 299 \<rparr>"
  let ?sb = "init\<lparr> gameState := PLAYING, player := (player init)\<lparr> lives := 1 \<rparr>,
              enemySpawnTimer := 55, powerUpTimer := 299, gameLevelTimer := 299,
              lastHitTimer := 299 \<rparr>"
  let ?r = "\<lparr> rand_ex1 = 1, rand_ex2 = 2, rand_espeed = 3, rand_etype = 4, rand_ux = 5 \<rparr>"
  have ha: "gameState ?sa = PLAYING \<and> lastHitTimer ?sa + 1 \<ge> 300 \<and> 0 < lives (player ?sa)"
    by (simp add: init_def)
  have hb: "gameState ?sb = PLAYING \<and> lastHitTimer ?sb + 1 \<ge> 300 \<and> 0 < lives (player ?sb)"
    by (simp add: init_def)
  note a = survival_penalty[of ?sa ?r, THEN mp, OF ha]
  note b = survival_penalty[of ?sb ?r, THEN mp, OF hb]
  note later = a[THEN conjunct2, THEN conjunct2, THEN spec, of "[?r, ?r]"]
  from a[THEN conjunct1] a[THEN conjunct2, THEN conjunct1] later b[THEN conjunct1] ha hb
  show ?thesis by (simp add: Let_def init_def)
qed

text \<open>
  C6. From MENU or GAME_OVER, the space key returns a state (the process does not exit) in
  mode PLAYING with \<open>lives = 3\<close>, \<open>score = 0\<close>, \<open>currentLevel = 1\<close>, no bullet, enemy or
  power-up, the player at (400, 50), which is where \<open>init\<close> puts it, and both the level
  timer and the no-hit timer at 0, whatever the state before.
\<close>

theorem restart_resets:
  "gameState s = MENU \<or> gameState s = GAME_OVER \<Longrightarrow>
   (case keyboardDown CHR '' '' s of None \<Rightarrow> False
           | Some g \<Rightarrow>
               gameState g = PLAYING
             \<and> lives (player g) = 3 \<and> score (player g) = 0 \<and> currentLevel g = 1
             \<and> bullets g = [] \<and> enemies g = [] \<and> powerUps g = []
             \<and> p_x (player g) = 400 \<and> p_y (player g) = 50
             \<and> p_x (player g) = p_x (player init) \<and> p_y (player g) = p_y (player init)
             \<and> gameLevelTimer g = 0 \<and> lastHitTimer g = 0)"
  by (auto simp: keyboardDown_def Let_def WIDTH_def init_def)

theorem restart_resets_witness:
  "(let s = init in
      (gameState s = MENU \<or> gameState s = GAME_OVER)
      \<and> (case keyboardDown CHR '' '' s of None \<Rightarrow> False
           | Some g \<Rightarrow>
               gameState g = PLAYING
             \<and> lives (player g) = 3 \<and> score (player g) = 0 \<and> currentLevel g = 1
             \<and> bullets g = [] \<and> enemies g = [] \<and> powerUps g = []
             \<and> p_x (player g) = 400 \<and> p_y (player g) = 50
             \<and> p_x (player g) = p_x (player init) \<and> p_y (player g) = p_y (player init)
             \<and> gameLevelTimer g = 0 \<and> lastHitTimer g = 0))
   \<and> (let s = init\<lparr> gameState := GAME_OVER,
                     player := \<lparr> p_x = 120, p_y = 300, p_size = 20, p_speed = 5,
                                 lives = 0, score = 170 \<rparr>,
                     bullets := [\<lparr> b_x = 120, b_y = 420, b_speed = 10, b_active = True \<rparr>],
                     enemies := [\<lparr> e_x = 33, e_y = 200, e_speed = 4.5, e_active = True,
                                   e_type = 2 \<rparr>],
                     powerUps := [\<lparr> u_x = 500, u_y = 90, u_speed = 1.5, u_active = True \<rparr>],
                     gameLevelTimer := 412, currentLevel := 3, enemySpawnRate := 10,
                     lastHitTimer := 17 \<rparr> in
      (gameState s = MENU \<or> gameState s = GAME_OVER)
      \<and> (case keyboardDown CHR '' '' s of None \<Rightarrow> False
           | Some g \<Rightarrow>
               gameState g = PLAYING
             \<and> lives (player g) = 3 \<and> score (player g) = 0 \<and> currentLevel g = 1
             \<and> bullets g = [] \<and> enemies g = [] \<and> powerUps g = []
             \<and> p_x (player g) = 400 \<and> p_y (player g) = 50
             \<and> p_x (player g) = p_x (player init) \<and> p_y (player g) = p_y (player init)
             \<and> gameLevelTimer g = 0 \<and> lastHitTimer g = 0))"
  using restart_resets[of init]
    restart_resets[of "init\<lparr> gameState := GAME_OVER,
                     player := \<lparr> p_x = 120, p_y = 300, p_size = 20, p_speed = 5,
                                 lives = 0, score = 170 \<rparr>,
                     bullets := [\<lparr> b_x = 120, b_y = 420, b_speed = 10, b_active = True \<rparr>],
                     enemies := [\<lparr> e_x = 33, e_y = 200, e_speed = 4.5, e_active = True,
                                   e_type = 2 \<rparr>],
                     powerUps := [\<lparr> u_x = 500, u_y = 90, u_speed = 1.5, u_active = True \<rparr>],
                     gameLevelTimer := 412, currentLevel := 3, enemySpawnRate := 10,
                     lastHitTimer := 17 \<rparr>"]
  by (simp add: init_def Let_def)

text \<open>
  C7 (every spawned enemy lies fully inside the playfield width). The code computes
  \<^verbatim>\<open>rand() % (WIDTH - 40) + rand() % 20\<close>, a value in 0..778, where the power-up spawn adds
  the constant 20. Below, both calls return 0: the enemy is created at \<open>x = 0\<close>, its centre
  on the left edge, and is still there at the end of the tick.
\<close>

theorem enemy_spawns_on_left_edge:
  "(let s = init\<lparr> gameState := PLAYING, enemySpawnTimer := 60 \<rparr>;
        r = \<lparr> rand_ex1 = 0, rand_ex2 = 0, rand_espeed = 0, rand_etype = 0, rand_ux = 0 \<rparr>
    in enemies (spawn_enemies r (tick_timers s))
         = [\<lparr> e_x = 0, e_y = 600, e_speed = 2.5, e_active = True, e_type = 0 \<rparr>]
       \<and> enemies (update r s)
         = [\<lparr> e_x = 0, e_y = 597.5, e_speed = 2.5, e_active = True, e_type = 0 \<rparr>])"
  by (simp add: tick_defs init_def)

text \<open>
  C8. For an active power-up whose position after this tick's move is closer to the player
  than \<open>p_size + 10\<close>: it is deactivated, \<open>lives\<close> goes up by one if it was below 5 and is
  unchanged otherwise (so it is \<open>min (lives + 1) 5\<close> from any value up to 5, and 5 stays 5),
  and the score becomes \<open>score + 20\<close> as a 32-bit int holds it, which is exactly
  \<open>score + 20\<close> for every score from \<open>-2\<^sup>3\<^sup>1\<close> to \<open>2\<^sup>3\<^sup>1 - 21\<close>.
\<close>

theorem powerup_pickup:
  "u_active powerUp \<Longrightarrow>
   sqrt ((u_x powerUp - p_x (player g))\<^sup>2 + (u_y powerUp - u_speed powerUp - p_y (player g))\<^sup>2)
     < p_size (player g) + 10 \<Longrightarrow>
   (case powerup_body powerUp g of (powerUp', g') \<Rightarrow>
      \<not> u_active powerUp'
      \<and> lives (player g') = (if lives (player g) < 5 then lives (player g) + 1 else lives (player g))
      \<and> (lives (player g) \<le> 5 \<longrightarrow> lives (player g') = min (lives (player g) + 1) 5)
      \<and> (lives (player g) = 5 \<longrightarrow> lives (player g') = 5)
      \<and> score (player g') = int32 (score (player g) + 20)
      \<and> (- 2147483648 \<le> score (player g) \<and> score (player g) \<le> 2147483627 \<longrightarrow>
           score (player g') = score (player g) + 20))"
  by (simp add: powerup_body_def Let_def power2_eq_square int32_in_range)

theorem powerup_pickup_witness:
  "(let powerUp = \<lparr> u_x = 410, u_y = 71.5, u_speed = 1.5, u_active = True \<rparr>;
        g = init\<lparr> gameState := PLAYING \<rparr>
    in u_active powerUp
       \<and> sqrt ((u_x powerUp - p_x (player g))\<^sup>2
               + (u_y powerUp - u_speed powerUp - p_y (player g))\<^sup>2) < p_size (player g) + 10
       \<and> - 2147483648 \<le> score (player g) \<and> score (player g) \<le> 2147483627
       \<and> (case powerup_body powerUp g of (powerUp', g') \<Rightarrow>
             \<not> u_active powerUp' \<and> lives (player g') = 4 \<and> score (player g') = 20))
   \<and> (let powerUp = \<lparr> u_x = 410, u_y = 71.5, u_speed = 1.5, u_active = True \<rparr>;
        g = init\<lparr> gameState := PLAYING,
                  player := (player init)\<lparr> lives := 5, score := 130 \<rparr> \<rparr>
    in u_active powerUp
       \<and> sqrt ((u_x powerUp - p_x (player g))\<^sup>2
               + (u_y powerUp - u_speed powerUp - p_y (player g))\<^sup>2) < p_size (player g) + 10
       \<and> - 2147483648 \<le> score (player g) \<and> score (player g) \<le> 2147483627
       \<and> lives (player g) = 5
       \<and> (case powerup_body powerUp g of (powerUp', g') \<Rightarrow>
             \<not> u_active powerUp' \<and> lives (player g') = 5 \<and> score (player g') = 150))"
  using
    powerup_pickup[of "\<lparr> u_x = 410, u_y = 71.5, u_speed = 1.5, u_active = True \<rparr>"
      "init\<lparr> gameState := PLAYING \<rparr>"]
    powerup_pickup[of "\<lparr> u_x = 410, u_y = 71.5, u_speed = 1.5, u_active = True \<rparr>"
      "init\<lparr> gameState := PLAYING, player := (player init)\<lparr> lives := 5, score := 130 \<rparr> \<rparr>"]
  by (simp add: Let_def sqrt_less_iff power2_eq_square powerup_body_def init_def WIDTH_def int32_def)

text \<open>Without the bound on the score the increase is not 20: the pickup at 2147483640
  points, with five lives, leaves a negative score.\<close>

theorem powerup_pickup_counterexample:
  "u_active \<lparr> u_x = 410, u_y = 71.5, u_speed = 1.5, u_active = True \<rparr>
   \<and> sqrt ((410 - 400)\<^sup>2 + (71.5 - 1.5 - 50)\<^sup>2) < (20 + 10 :: real)
   \<and> p_x (player (init\<lparr> gameState := PLAYING,
          player := (player init)\<lparr> lives := 5, score := 2147483640 \<rparr> \<rparr>)) = 400
   \<and> p_y (player (init\<lparr> gameState := PLAYING,
          player := (player init)\<lparr> lives := 5, score := 2147483640 \<rparr> \<rparr>)) = 50
   \<and> p_size (player (init\<lparr> gameState := PLAYING,
          player := (player init)\<lparr> lives := 5, score := 2147483640 \<rparr> \<rparr>)) = 20
   \<and> score (player (snd (powerup_body
         \<lparr> u_x = 410, u_y = 71.5, u_speed = 1.5, u_active = True \<rparr>
         (init\<lparr> gameState := PLAYING,
          player := (player init)\<lparr> lives := 5, score := 2147483640 \<rparr> \<rparr>)))) = - 2147483636
   \<and> lives (player (snd (powerup_body
         \<lparr> u_x = 410, u_y = 71.5, u_speed = 1.5, u_active = True \<rparr>
         (init\<lparr> gameState := PLAYING,
          player := (player init)\<lparr> lives := 5, score := 2147483640 \<rparr> \<rparr>)))) = 5
   \<and> score (player (snd (powerup_body
         \<lparr> u_x = 410, u_y = 71.5, u_speed = 1.5, u_active = True \<rparr>
         (init\<lparr> gameState := PLAYING,
          player := (player init)\<lparr> lives := 5, score := 2147483640 \<rparr> \<rparr>))))
       \<noteq> score (player (init\<lparr> gameState := PLAYING,
          player := (player init)\<lparr> lives := 5, score := 2147483640 \<rparr> \<rparr>)) + 20"
  by (simp add: powerup_body_def Let_def sqrt_less_iff power2_eq_square init_def WIDTH_def
      int32_def)

text \<open>
  C9. At the end of a PLAYING tick each of the three vectors is the vector the tick
  computed before the cleanup, filtered by the active flag: every element left is active,
  and the elements kept are in the order they had.
\<close>

theorem cleanup_removes_inactive:
  "gameState s = PLAYING \<Longrightarrow>
     bullets (update r s) = filter b_active (bullets (simulate r s))
   \<and> enemies (update r s) = filter e_active (enemies (simulate r s))
   \<and> powerUps (update r s) = filter u_active (powerUps (simulate r s))
   \<and> list_all b_active (bullets (update r s))
   \<and> list_all e_active (enemies (update r s))
   \<and> list_all u_active (powerUps (update r s))"
  by (simp add: update_def cleanup_def erase_remove_if list_all_iff)

theorem cleanup_removes_inactive_witness:
  "(let s = \<lparr> gameState = PLAYING,
               player = \<lparr> p_x = 400, p_y = 50, p_size = 20, p_speed = 5, lives = 3, score = 0 \<rparr>,
               bullets = [\<lparr> b_x = 100, b_y = 595, b_speed = 10, b_active = True \<rparr>,
                          \<lparr> b_x = 300, b_y = 100, b_speed = 10, b_active = True \<rparr>,
                          \<lparr> b_x = 200, b_y = 200, b_speed = 10, b_active = True \<rparr>],
               enemies = [\<lparr> e_x = 700, e_y = 300, e_speed = 2.5, e_active = True, e_type = 0 \<rparr>,
                          \<lparr> e_x = 600, e_y = - 29, e_speed = 3.5, e_active = True, e_type = 1 \<rparr>,
                          \<lparr> e_x = 500, e_y = 400, e_speed = 4.5, e_active = True, e_type = 2 \<rparr>],
               powerUps = [\<lparr> u_x = 405, u_y = 61.5, u_speed = 1.5, u_active = True \<rparr>,
                           \<lparr> u_x = 50, u_y = 500, u_speed = 1.5, u_active = True \<rparr>],
               starOffset = 10, enemySpawnTimer = 14, powerUpTimer = 100, gameLevelTimer = 200,
               currentLevel = 1, enemySpawnRate = 60, lastHitTimer = 50, playerShape = 0,
               keys = (\<lambda>c. False) \<rparr>;
        r = \<lparr> rand_ex1 = 1, rand_ex2 = 2, rand_espeed = 3, rand_etype = 4, rand_ux = 5 \<rparr>
    in gameState s = PLAYING
       \<and> bullets (simulate r s) = [\<lparr> b_x = 100, b_y = 605, b_speed = 10, b_active = False \<rparr>,
                                   \<lparr> b_x = 300, b_y = 110, b_speed = 10, b_active = True \<rparr>,
                                   \<lparr> b_x = 200, b_y = 210, b_speed = 10, b_active = True \<rparr>]
       \<and> bullets (update r s) = [\<lparr> b_x = 300, b_y = 110, b_speed = 10, b_active = True \<rparr>,
                                 \<lparr> b_x = 200, b_y = 210, b_speed = 10, b_active = True \<rparr>]
       \<and> enemies (update r s) = [\<lparr> e_x = 700, e_y = 297.5, e_speed = 2.5, e_active = True, e_type = 0 \<rparr>,
                                 \<lparr> e_x = 500, e_y = 395.5, e_speed = 4.5, e_active = True, e_type = 2 \<rparr>]
       \<and> powerUps (update r s) = [\<lparr> u_x = 50, u_y = 498.5, u_speed = 1.5, u_active = True \<rparr>]
       \<and> list_all b_active (bullets (update r s))
       \<and> list_all e_active (enemies (update r s))
       \<and> list_all u_active (powerUps (update r s)))"
proof -
  let ?s = "\<lparr> gameState = PLAYING,
               player = \<lparr> p_x = 400, p_y = 50, p_size = 20, p_speed = 5, lives = 3, score = 0 \<rparr>,
               bullets = [\<lparr> b_x = 100, b_y = 595, b_speed = 10, b_active = True \<rparr>,
                          \<lparr> b_x = 300, b_y = 100, b_speed = 10, b_active = True \<rparr>,
                          \<lparr> b_x = 200, b_y = 200, b_speed = 10, b_active = True \<rparr>],
               enemies = [\<lparr> e_x = 700, e_y = 300, e_speed = 2.5, e_active = True, e_type = 0 \<rparr>,
                          \<lparr> e_x = 600, e_y = - 29, e_speed = 3.5, e_active = True, e_type = 1 \<rparr>,
                          \<lparr> e_x = 500, e_y = 400, e_speed = 4.5, e_active = True, e_type = 2 \<rparr>],
               powerUps = [\<lparr> u_x = 405, u_y = 61.5, u_speed = 1.5, u_active = True \<rparr>,
                           \<lparr> u_x = 50, u_y = 500, u_speed = 1.5, u_active = True \<rparr>],
               starOffset = 10, enemySpawnTimer = 14, powerUpTimer = 100, gameLevelTimer = 200,
               currentLevel = 1, enemySpawnRate = 60, lastHitTimer = 50, playerShape = 0,
               keys = (\<lambda>c. False) \<rparr>"
  let ?r = "\<lparr> rand_ex1 = 1, rand_ex2 = 2, rand_espeed = 3, rand_etype = 4, rand_ux = 5 \<rparr>"
  have playing: "gameState ?s = PLAYING" by simp
  have ev: "bullets (simulate ?r ?s) = [\<lparr> b_x = 100, b_y = 605, b_speed = 10, b_active = False \<rparr>,
                                   \<lparr> b_x = 300, b_y = 110, b_speed = 10, b_active = True \<rparr>,
                                   \<lparr> b_x = 200, b_y = 210, b_speed = 10, b_active = True \<rparr>]
      \<and> enemies (simulate ?r ?s) = [\<lparr> e_x = 700, e_y = 297.5, e_speed = 2.5, e_active = True, e_type = 0 \<rparr>,
                                   \<lparr> e_x = 600, e_y = - 32.5, e_speed = 3.5, e_active = False, e_type = 1 \<rparr>,
                                 \<lparr> e_x = 500, e_y = 395.5, e_speed = 4.5, e_active = True, e_type = 2 \<rparr>]
      \<and> powerUps (simulate ?r ?s) = [\<lparr> u_x = 405, u_y = 60, u_speed = 1.5, u_active = False \<rparr>,
            \<lparr> u_x = 50, u_y = 498.5, u_speed = 1.5, u_active = True \<rparr>]"
    by (simp add: tick_defs)
  from cleanup_removes_inactive[OF playing, of ?r] ev playing
  show ?thesis by (simp add: Let_def)
qed

text \<open>
  C10. The space key in MENU or GAME_OVER leaves \<open>enemySpawnTimer\<close> and \<open>powerUpTimer\<close> as
  they were. A run started from \<open>init\<close> has no enemy during its first 60 ticks and no
  power-up during its first 300; a run restarted from a GAME_OVER state whose
  \<open>enemySpawnTimer\<close> is 60 has an enemy after its first tick, and one restarted with
  \<open>powerUpTimer\<close> at 300 has a power-up after its first tick.
\<close>

theorem restart_keeps_spawn_counters:
  "(gameState s = MENU \<or> gameState s = GAME_OVER \<longrightarrow>
      (case keyboardDown CHR '' '' s of None \<Rightarrow> False
       | Some g \<Rightarrow> enemySpawnTimer g = enemySpawnTimer s \<and> powerUpTimer g = powerUpTimer s))
   \<and> (case keyboardDown CHR '' '' init of None \<Rightarrow> False
      | Some g \<Rightarrow>
          (\<forall>rs. length rs \<le> 60 \<longrightarrow> enemies (run rs g) = [])
        \<and> (\<forall>rs. length rs \<le> 300 \<longrightarrow> powerUps (run rs g) = []))
   \<and> (case keyboardDown CHR '' ''
           \<lparr> gameState = GAME_OVER,
              player = \<lparr> p_x = 400, p_y = 50, p_size = 20, p_speed = 5, lives = 0, score = 0 \<rparr>,
              bullets = [],
              enemies = [\<lparr> e_x = 615, e_y = 447.5, e_speed = 2.5, e_active = True, e_type = 3 \<rparr>],
              powerUps = [\<lparr> u_x = 230, u_y = 594, u_speed = 1.5, u_active = True \<rparr>],
              starOffset = 152, enemySpawnTimer = 60, powerUpTimer = 3, gameLevelTimer = 304,
              currentLevel = 1, enemySpawnRate = 60, lastHitTimer = 4, playerShape = 0,
              keys = (\<lambda>c. False) \<rparr> of
        None \<Rightarrow> False
      | Some g \<Rightarrow>
          enemies (update \<lparr> rand_ex1 = 1234, rand_ex2 = 77, rand_espeed = 5, rand_etype = 6, rand_ux = 9 \<rparr> g)
            = [\<lparr> e_x = 491, e_y = 595.5, e_speed = 4.5, e_active = True, e_type = 2 \<rparr>])
   \<and> (case keyboardDown CHR '' ''
           \<lparr> gameState = GAME_OVER,
              player = \<lparr> p_x = 400, p_y = 50, p_size = 20, p_speed = 5, lives = 0, score = 0 \<rparr>,
              bullets = [], enemies = [], powerUps = [],
              starOffset = 150, enemySpawnTimer = 56, powerUpTimer = 300, gameLevelTimer = 300,
              currentLevel = 1, enemySpawnRate = 60, lastHitTimer = 0, playerShape = 0,
              keys = (\<lambda>c. False) \<rparr> of
        None \<Rightarrow> False
      | Some g \<Rightarrow>
          powerUps (update \<lparr> rand_ex1 = 1234, rand_ex2 = 77, rand_espeed = 5, rand_etype = 6, rand_ux = 9 \<rparr> g)
            = [\<lparr> u_x = 29, u_y = 598.5, u_speed = 1.5, u_active = True \<rparr>])"
proof (intro conjI impI)
  assume "gameState s = MENU \<or> gameState s = GAME_OVER"
  then show "(case keyboardDown CHR '' '' s of None \<Rightarrow> False
       | Some g \<Rightarrow> enemySpawnTimer g = enemySpawnTimer s \<and> powerUpTimer g = powerUpTimer s)"
    by (auto simp: keyboardDown_def Let_def)
next
  let ?g = "init\<lparr> keys := (keys init)(CHR '' '' := True), gameState := PLAYING \<rparr>"
  have k: "keyboardDown CHR '' '' init = Some ?g"
    by (simp add: keyboardDown_def init_def Let_def WIDTH_def)
  have a: "\<forall>rs. length rs \<le> 60 \<longrightarrow> enemies (run rs ?g) = []"
  proof (intro allI impI)
    fix rs :: "rands list" assume "length rs \<le> 60"
    then show "enemies (run rs ?g) = []"
      by (intro no_enemy_run[where c = 0]) (simp_all add: init_def)
  qed
  have b: "\<forall>rs. length rs \<le> 300 \<longrightarrow> powerUps (run rs ?g) = []"
  proof (intro allI impI)
    fix rs :: "rands list" assume "length rs \<le> 300"
    then show "powerUps (run rs ?g) = []"
      by (intro no_powerup_run[where c = 0]) (simp_all add: init_def)
  qed
  from a b show "(case keyboardDown CHR '' '' init of None \<Rightarrow> False
      | Some g \<Rightarrow>
          (\<forall>rs. length rs \<le> 60 \<longrightarrow> enemies (run rs g) = [])
        \<and> (\<forall>rs. length rs \<le> 300 \<longrightarrow> powerUps (run rs g) = []))"
    by (simp only: k option.case)
next
  show "(case keyboardDown CHR '' ''
           \<lparr> gameState = GAME_OVER,
              player = \<lparr> p_x = 400, p_y = 50, p_size = 20, p_speed = 5, lives = 0, score = 0 \<rparr>,
              bullets = [],
              enemies = [\<lparr> e_x = 615, e_y = 447.5, e_speed = 2.5, e_active = True, e_type = 3 \<rparr>],
              powerUps = [\<lparr> u_x = 230, u_y = 594, u_speed = 1.5, u_active = True \<rparr>],
              starOffset = 152, enemySpawnTimer = 60, powerUpTimer = 3, gameLevelTimer = 304,
              currentLevel = 1, enemySpawnRate = 60, lastHitTimer = 4, playerShape = 0,
              keys = (\<lambda>c. False) \<rparr> of
        None \<Rightarrow> False
      | Some g \<Rightarrow>
          enemies (update \<lparr> rand_ex1 = 1234, rand_ex2 = 77, rand_espeed = 5, rand_etype = 6, rand_ux = 9 \<rparr> g)
            = [\<lparr> e_x = 491, e_y = 595.5, e_speed = 4.5, e_active = True, e_type = 2 \<rparr>])"
    by (simp add: keyboardDown_def tick_defs)
next
  show "(case keyboardDown CHR '' ''
           \<lparr> gameState = GAME_OVER,
              player = \<lparr> p_x = 400, p_y = 50, p_size = 20, p_speed = 5, lives = 0, score = 0 \<rparr>,
              bullets = [], enemies = [], powerUps = [],
              starOffset = 150, enemySpawnTimer = 56, powerUpTimer = 300, gameLevelTimer = 300,
              currentLevel = 1, enemySpawnRate = 60, lastHitTimer = 0, playerShape = 0,
              keys = (\<lambda>c. False) \<rparr> of
        None \<Rightarrow> False
      | Some g \<Rightarrow>
          powerUps (update \<lparr> rand_ex1 = 1234, rand_ex2 = 77, rand_espeed = 5, rand_etype = 6, rand_ux = 9 \<rparr> g)
            = [\<lparr> u_x = 29, u_y = 598.5, u_speed = 1.5, u_active = True \<rparr>])"
    by (simp add: keyboardDown_def tick_defs)
qed

theorem restart_keeps_spawn_counters_witness:
  "(let s = \<lparr> gameState = GAME_OVER,
              player = \<lparr> p_x = 400, p_y = 50, p_size = 20, p_speed = 5, lives = 0, score = 0 \<rparr>,
              bullets = [],
              enemies = [\<lparr> e_x = 615, e_y = 447.5, e_speed = 2.5, e_active = True, e_type = 3 \<rparr>],
              powerUps = [\<lparr> u_x = 230, u_y = 594, u_speed = 1.5, u_active = True \<rparr>],
              starOffset = 152, enemySpawnTimer = 60, powerUpTimer = 3, gameLevelTimer = 304,
              currentLevel = 1, enemySpawnRate = 60, lastHitTimer = 4, playerShape = 0,
              keys = (\<lambda>c. False) \<rparr>
    in (gameState s = MENU \<or> gameState s = GAME_OVER)
       \<and> (case keyboardDown CHR '' '' s of None \<Rightarrow> False
          | Some g \<Rightarrow> enemySpawnTimer g = 60 \<and> powerUpTimer g = 3))
   \<and> (let r = \<lparr> rand_ex1 = 1234, rand_ex2 = 77, rand_espeed = 5, rand_etype = 6, rand_ux = 9 \<rparr>
       in case keyboardDown CHR '' '' init of None \<Rightarrow> False
          | Some g \<Rightarrow> length [r, r] \<le> 60 \<and> enemies (run [r, r] g) = []
                     \<and> powerUps (run [r, r] g) = [])"
  using restart_keeps_spawn_counters[of "\<lparr> gameState = GAME_OVER,
              player = \<lparr> p_x = 400, p_y = 50, p_size = 20, p_speed = 5, lives = 0, score = 0 \<rparr>,
              bullets = [],
              enemies = [\<lparr> e_x = 615, e_y = 447.5, e_speed = 2.5, e_active = True, e_type = 3 \<rparr>],
              powerUps = [\<lparr> u_x = 230, u_y = 594, u_speed = 1.5, u_active = True \<rparr>],
              starOffset = 152, enemySpawnTimer = 60, powerUpTimer = 3, gameLevelTimer = 304,
              currentLevel = 1, enemySpawnRate = 60, lastHitTimer = 4, playerShape = 0,
              keys = (\<lambda>c. False) \<rparr>"]
  by (auto simp: Let_def split: option.splits)

end
